theory Spec2Isabelle
  imports Main "HOL-Library.Char_ord" "HOL-Library.List_Lexorder"
begin

section \<open>JavaScript values of lib/config.js\<close>

text \<open>
  The configuration engine of \<^verbatim>\<open>lib/config.js\<close> works on JavaScript values. The
  embedding represents them as finite trees:
  \<^item> the primitives \<^verbatim>\<open>undefined\<close>, \<^verbatim>\<open>null\<close>, booleans, (integer) numbers, strings;
  \<^item> objects: a kind (what \<^verbatim>\<open>Array.isArray\<close>, \<^verbatim>\<open>instanceof Date\<close>,
    \<^verbatim>\<open>instanceof RegExp\<close>, \<^verbatim>\<open>instanceof DeferredConfig\<close> and
    \<^verbatim>\<open>instanceof RawConfig\<close> tell apart) and the list of own data properties in
    enumeration order, each with its attributes \<^verbatim>\<open>writable\<close>, \<^verbatim>\<open>enumerable\<close>,
    \<^verbatim>\<open>configurable\<close>.
  Every object node of a tree is an object of its own: trees have no sharing and no
  cycles. Every object is extensible: the file never calls
  \<^verbatim>\<open>Object.preventExtensions\<close>, \<^verbatim>\<open>Object.seal\<close> or \<^verbatim>\<open>Object.freeze\<close>, and an
  object that a caller has made non-extensible has no representation. Accessor
  properties, functions as property values, \<^verbatim>\<open>NaN\<close>, fractions and buffers are
  outside the model. An array holds its elements under the keys \<^verbatim>\<open>"0"\<close>,
  \<^verbatim>\<open>"1"\<close>, ...; its built-in \<^verbatim>\<open>length\<close> is one more than its greatest index
  and is no entry of the list.

  What an object inherits from its prototype chain is no part of the tree. The
  functions \<open>getImpl\<close>, \<open>get\<close> and \<open>has\<close>, which read a property under any
  name that the caller passes, take the inherited properties as a parameter (section
  \<open>getImpl\<close>), and \<open>diffDeep\<close> takes the set of their names (\<open>get_prop\<close>).
  The other functions read \<^verbatim>\<open>o[k]\<close> only under a key \<open>k\<close> that
  \<^verbatim>\<open>for ... in\<close> or \<^verbatim>\<open>Object.keys\<close> has found in a partner object, and \<open>lookup\<close>
  gives them the own property: this is what the code reads whenever \<open>o\<close> has the
  property itself or inherits none of that name. An inherited method is then read as
  \<^verbatim>\<open>undefined\<close>: in \<open>equalsDeep\<close> both differ from every value that a tree
  stores other than \<^verbatim>\<open>undefined\<close>, and for \<open>extendDeep\<close> the section of the
  function says what an inherited property changes. The predicate \<open>structural\<close>
  delimits the trees on which the embedding is what the code does.
\<close>

datatype attrs = Attrs (writable: bool) (enumerable: bool) (configurable: bool)

datatype kind =
    Plain
  | Array
  | Date int
  | RegExp string string int
  | Deferred nat
  | Raw

datatype jsval =
    Undefined
  | Null
  | Bool bool
  | Num int
  | Str string
  | Obj kind "(string \<times> attrs \<times> jsval) list"

type_synonym props = "(string \<times> attrs \<times> jsval) list"

text \<open>
  The exceptions of the file, as values. The last two stand for the operations that the
  embedding does not follow: \<open>ArrayLength\<close> for a write of \<open>extendDeep\<close> to the
  built-in \<^verbatim>\<open>length\<close> of an array, \<open>Inherited\<close> for a read of \<open>diffDeep\<close> that
  finds an inherited property.
\<close>

datatype error = TypeError | NullArgument | NotDefined | ArrayLength | Inherited

text \<open>The attributes of a property created by assignment or by an object literal.\<close>

definition plain_attrs :: attrs where
  "plain_attrs = Attrs True True True"

text \<open>An object literal, and an array literal.\<close>

definition lit :: "(string \<times> jsval) list \<Rightarrow> jsval" where
  "lit kvs = Obj Plain (map (\<lambda>(k, v). (k, plain_attrs, v)) kvs)"

definition digit_char :: "nat \<Rightarrow> char" where
  "digit_char n = ''0123456789'' ! (n mod 10)"

fun show_nat :: "nat \<Rightarrow> string" where
  "show_nat n = (if n < 10 then [digit_char n] else show_nat (n div 10) @ [digit_char (n mod 10)])"

declare show_nat.simps [simp del]

definition arr :: "jsval list \<Rightarrow> jsval" where
  "arr vs = Obj Array (map (\<lambda>(i, v). (show_nat i, plain_attrs, v)) (zip [0..<length vs] vs))"

subsection \<open>Primitive operations of the language\<close>

text \<open>\<^verbatim>\<open>!!v\<close>: the value is truthy.\<close>

fun truthy :: "jsval \<Rightarrow> bool" where
  "truthy Undefined = False"
| "truthy Null = False"
| "truthy (Bool b) = b"
| "truthy (Num n) = (n \<noteq> 0)"
| "truthy (Str s) = (s \<noteq> [])"
| "truthy (Obj k ps) = True"

text \<open>\<^verbatim>\<open>typeof v === 'object'\<close> (true of \<^verbatim>\<open>null\<close>).\<close>

fun typeof_object :: "jsval \<Rightarrow> bool" where
  "typeof_object Null = True"
| "typeof_object (Obj k ps) = True"
| "typeof_object v = False"

text \<open>
  \<^verbatim>\<open>a === b\<close>. Primitives compare by value. Two object nodes of a tree are two
  objects, so they are never identical.
\<close>

fun strict_eq :: "jsval \<Rightarrow> jsval \<Rightarrow> bool" where
  "strict_eq (Obj k ps) b = False"
| "strict_eq a (Obj k ps) = False"
| "strict_eq a b = (a = b)"

text \<open>\<^verbatim>\<open>a != null\<close>: neither \<^verbatim>\<open>null\<close> nor \<^verbatim>\<open>undefined\<close>.\<close>

fun not_nullish :: "jsval \<Rightarrow> bool" where
  "not_nullish Undefined = False"
| "not_nullish Null = False"
| "not_nullish v = True"

fun isArray :: "jsval \<Rightarrow> bool" where
  "isArray (Obj Array ps) = True"
| "isArray v = False"

text \<open>\<^verbatim>\<open>for (var p in o)\<close> and \<^verbatim>\<open>Object.keys(o)\<close>: the enumerable own properties.\<close>

definition enum_props :: "props \<Rightarrow> props" where
  "enum_props ps = filter (\<lambda>(k, a, v). enumerable a) ps"

definition keys :: "props \<Rightarrow> string list" where
  "keys ps = map fst (enum_props ps)"

text \<open>
  The index that a key denotes: \<^verbatim>\<open>"0"\<close>, \<^verbatim>\<open>"17"\<close>, but not \<^verbatim>\<open>"007"\<close> or
  \<^verbatim>\<open>"x"\<close>.
\<close>

fun digit_val :: "char \<Rightarrow> nat" where
  "digit_val c = of_char c - 48"

definition parse_nat :: "string \<Rightarrow> nat" where
  "parse_nat s = foldl (\<lambda>acc c. 10 * acc + digit_val c) 0 s"

definition index_of_key :: "string \<Rightarrow> nat option" where
  "index_of_key k = (if show_nat (parse_nat k) = k then Some (parse_nat k) else None)"

text \<open>The \<^verbatim>\<open>length\<close> of an array: one more than its greatest index.\<close>

definition array_length :: "props \<Rightarrow> nat" where
  "array_length ps =
     foldl (\<lambda>n (k, a, v). case index_of_key k of None \<Rightarrow> n | Some i \<Rightarrow> max n (Suc i)) 0 ps"

text \<open>
  \<^verbatim>\<open>o[k]\<close> on an object: the own property, the \<^verbatim>\<open>length\<close> of an array, or
  \<^verbatim>\<open>undefined\<close>.
\<close>

definition lookup :: "kind \<Rightarrow> props \<Rightarrow> string \<Rightarrow> jsval" where
  "lookup knd ps k =
     (case map_of ps k of
        Some (a, v) \<Rightarrow> v
      | None \<Rightarrow> if knd = Array \<and> k = ''length'' then Num (int (array_length ps)) else Undefined)"

text \<open>
  The own property of a value under a name, when there is one: a property of the list,
  the \<^verbatim>\<open>length\<close> of an array, a character or the \<^verbatim>\<open>length\<close> of a string.
\<close>

fun own_property :: "jsval \<Rightarrow> string \<Rightarrow> jsval option" where
  "own_property (Obj knd ps) k =
     (case map_of ps k of
        Some (a, v) \<Rightarrow> Some v
      | None \<Rightarrow> if knd = Array \<and> k = ''length'' then Some (Num (int (array_length ps))) else None)"
| "own_property (Str s) k =
     (if k = ''length'' then Some (Num (int (length s)))
      else case index_of_key k of
             None \<Rightarrow> None
           | Some i \<Rightarrow> if i < length s then Some (Str [s ! i]) else None)"
| "own_property v k = None"

text \<open>
  \<^verbatim>\<open>v[k]\<close> on any value, as \<open>diffDeep\<close> reads it under the keys of its second
  argument. Reading a property of \<^verbatim>\<open>null\<close> or \<^verbatim>\<open>undefined\<close> throws a TypeError.
  The read yields the own property when there is one. Otherwise it finds what the value
  inherits: \<open>inherited\<close> is the set of the names under which a value inherits a
  property (the members of \<^verbatim>\<open>Object.prototype\<close> and of the prototypes of arrays,
  numbers, booleans and strings). Such a property is a method, which is no value of a
  tree; what \<open>diffDeep\<close> does with it is not followed, and the read stops with
  \<open>Inherited\<close>. Under every other name the read yields \<^verbatim>\<open>undefined\<close>.
\<close>

definition get_prop :: "string set \<Rightarrow> jsval \<Rightarrow> string \<Rightarrow> error + jsval" where
  "get_prop inherited v k =
     (if \<not> not_nullish v then Inl TypeError
      else case own_property v k of
             Some x \<Rightarrow> Inr x
           | None \<Rightarrow> if k \<in> inherited then Inl Inherited else Inr Undefined)"

text \<open>
  A depth argument as the callers pass it: omitted (\<^verbatim>\<open>undefined\<close>), \<^verbatim>\<open>null\<close>, a
  number, or the \<^verbatim>\<open>NaN\<close> that \<^verbatim>\<open>undefined - 1\<close> is.
\<close>

datatype depth = DUndefined | DNull | DNaN | DNum int

text \<open>\<^verbatim>\<open>depth - 1\<close>, \<^verbatim>\<open>depth < 0\<close>.\<close>

fun dec :: "depth \<Rightarrow> depth" where
  "dec (DNum n) = DNum (n - 1)"
| "dec DNull = DNum (- 1)"
| "dec DUndefined = DNaN"
| "dec DNaN = DNaN"

fun lt0 :: "depth \<Rightarrow> bool" where
  "lt0 (DNum n) = (n < 0)"
| "lt0 d = False"

definition DEFAULT_CLONE_DEPTH :: int where
  "DEFAULT_CLONE_DEPTH = 20"

section \<open>equalsDeep\<close>

text \<open>
  \<^verbatim>\<open>util.equalsDeep(object1, object2, depth)\<close>. The result is a JavaScript value:
  \<^verbatim>\<open>true\<close>, \<^verbatim>\<open>false\<close>, or the empty object that the recursion guard returns.
  \<open>equalsDeep_loop\<close> is the \<^verbatim>\<open>for (var prop in object1)\<close> loop over the remaining
  properties of \<open>object1\<close>, with the kind and the properties of \<open>object2\<close> and the
  depth that the function has normalised.
\<close>

fun equalsDeep :: "jsval \<Rightarrow> jsval \<Rightarrow> depth \<Rightarrow> jsval"
  and equalsDeep_loop :: "props \<Rightarrow> kind \<Rightarrow> props \<Rightarrow> depth \<Rightarrow> jsval" where
  "equalsDeep object1 object2 depth0 =
     (let depth = (if depth0 = DNull then DNum DEFAULT_CLONE_DEPTH else depth0) in
      if lt0 depth then Obj Plain []
      else if \<not> truthy object1 \<or> \<not> truthy object2 then Bool False
      else if strict_eq object1 object2 then Bool True
      else if \<not> typeof_object object1 \<or> \<not> typeof_object object2 then Bool False
      else (case (object1, object2) of
              (Obj k1 ps1, Obj k2 ps2) \<Rightarrow>
                if length (keys ps1) \<noteq> length (keys ps2) then Bool False
                else equalsDeep_loop ps1 k2 ps2 depth
            | _ \<Rightarrow> Bool False))"
| "equalsDeep_loop [] k2 ps2 depth = Bool True"
| "equalsDeep_loop ((prop, a, v) # rest) k2 ps2 depth =
     (if \<not> enumerable a then equalsDeep_loop rest k2 ps2 depth
      else if truthy v \<and> typeof_object v then
        (if \<not> truthy (equalsDeep v (lookup k2 ps2 prop) (dec depth)) then Bool False
         else equalsDeep_loop rest k2 ps2 depth)
      else if \<not> strict_eq v (lookup k2 ps2 prop) then Bool False
      else equalsDeep_loop rest k2 ps2 depth)"

section \<open>Property definition and assignment\<close>

text \<open>
  Assignment and \<^verbatim>\<open>Object.defineProperty\<close> on the data properties of the list. The
  built-in \<^verbatim>\<open>length\<close> of an array is no entry of the list: \<open>extendDeep\<close>, the one
  caller that can come with that key, treats it before it assigns or defines (section
  \<open>extendDeep\<close>).

  \<^verbatim>\<open>o[k] = v\<close> in sloppy mode (the file has no strict-mode directive): a new property
  is created writable, enumerable and configurable; an existing writable property takes
  the value; an assignment to a non-writable property is silently ignored.
\<close>

fun assign :: "props \<Rightarrow> string \<Rightarrow> jsval \<Rightarrow> props" where
  "assign [] k v = [(k, plain_attrs, v)]"
| "assign ((k', a, old) # ps) k v =
     (if k' = k then (if writable a then (k', a, v) # ps else (k', a, old) # ps)
      else (k', a, old) # assign ps k v)"

text \<open>
  The object stored under \<open>k\<close> has been mutated in place: the property keeps its
  attributes and now shows the mutated object.
\<close>

fun replace_value :: "props \<Rightarrow> string \<Rightarrow> jsval \<Rightarrow> props" where
  "replace_value [] k v = []"
| "replace_value ((k', a, old) # ps) k v =
     (if k' = k then (k', a, v) # ps else (k', a, old) # replace_value ps k v)"

text \<open>
  A data property descriptor as \<^verbatim>\<open>Object.defineProperty\<close> takes it: each field may be
  absent.
\<close>

datatype desc = Desc (d_value: "jsval option") (d_writable: "bool option")
  (d_enumerable: "bool option") (d_configurable: "bool option")

text \<open>\<^verbatim>\<open>Object.getOwnPropertyDescriptor\<close> of a data property.\<close>

definition descriptor :: "attrs \<Rightarrow> jsval \<Rightarrow> desc" where
  "descriptor a v = Desc (Some v) (Some (writable a)) (Some (enumerable a)) (Some (configurable a))"

text \<open>
  When \<^verbatim>\<open>Object.defineProperty\<close> rejects a descriptor for an existing data property
  (and throws a TypeError): the property is not configurable and the descriptor would
  make it configurable, change its enumerability, or, for a property that is not
  writable either, make it writable or change its value. Values are compared by
  SameValue; on objects the model compares the trees, and the one caller that passes an
  object (\<open>makeImmutable\<close>) passes the property's own current value.
\<close>

definition rejects :: "attrs \<Rightarrow> jsval \<Rightarrow> desc \<Rightarrow> bool" where
  "rejects a cur d =
     (\<not> configurable a \<and>
      (d_configurable d = Some True
       \<or> (case d_enumerable d of None \<Rightarrow> False | Some e \<Rightarrow> e \<noteq> enumerable a)
       \<or> (\<not> writable a \<and>
           (d_writable d = Some True
            \<or> (case d_value d of None \<Rightarrow> False | Some v \<Rightarrow> v \<noteq> cur)))))"

definition redefine :: "attrs \<Rightarrow> jsval \<Rightarrow> desc \<Rightarrow> attrs \<times> jsval" where
  "redefine a cur d =
     (Attrs (case d_writable d of None \<Rightarrow> writable a | Some w \<Rightarrow> w)
            (case d_enumerable d of None \<Rightarrow> enumerable a | Some e \<Rightarrow> e)
            (case d_configurable d of None \<Rightarrow> configurable a | Some c \<Rightarrow> c),
      case d_value d of None \<Rightarrow> cur | Some v \<Rightarrow> v)"

text \<open>A property that \<^verbatim>\<open>Object.defineProperty\<close> creates: absent fields are false or undefined.\<close>

definition create :: "desc \<Rightarrow> attrs \<times> jsval" where
  "create d =
     (Attrs (case d_writable d of None \<Rightarrow> False | Some w \<Rightarrow> w)
            (case d_enumerable d of None \<Rightarrow> False | Some e \<Rightarrow> e)
            (case d_configurable d of None \<Rightarrow> False | Some c \<Rightarrow> c),
      case d_value d of None \<Rightarrow> Undefined | Some v \<Rightarrow> v)"

fun defineProperty :: "props \<Rightarrow> string \<Rightarrow> desc \<Rightarrow> error + props" where
  "defineProperty [] k d = Inr [(k, create d)]"
| "defineProperty ((k', a, cur) # ps) k d =
     (if k' = k then
        (if rejects a cur d then Inl TypeError else Inr ((k', redefine a cur d) # ps))
      else (case defineProperty ps k d of
              Inl e \<Rightarrow> Inl e
            | Inr ps' \<Rightarrow> Inr ((k', a, cur) # ps')))"

section \<open>isObject, makeImmutable\<close>

text \<open>\<^verbatim>\<open>util.isObject\<close>: an object that is not null and not an array.\<close>

definition isObject :: "jsval \<Rightarrow> bool" where
  "isObject obj = (obj \<noteq> Null \<and> typeof_object obj \<and> \<not> isArray obj)"

fun is_raw :: "jsval \<Rightarrow> bool" where
  "is_raw (Obj Raw ps) = True"
| "is_raw v = False"

fun is_deferred :: "jsval \<Rightarrow> bool" where
  "is_deferred (Obj (Deferred r) ps) = True"
| "is_deferred v = False"

fun is_date :: "jsval \<Rightarrow> bool" where
  "is_date (Obj (Date t) ps) = True"
| "is_date v = False"

fun is_regexp :: "jsval \<Rightarrow> bool" where
  "is_regexp (Obj (RegExp s f i) ps) = True"
| "is_regexp v = False"

text \<open>The descriptor that \<open>makeImmutable\<close> passes.\<close>

definition immutable_desc :: "jsval \<Rightarrow> desc" where
  "immutable_desc v = Desc (Some v) (Some False) None (Some False)"

text \<open>
  \<^verbatim>\<open>util.makeImmutable(object)\<close>: the call with one argument, which is the default
  mode, the call that \<open>get\<close> makes and the call that the function makes on itself.
  (With a \<^verbatim>\<open>property\<close> argument the function defines the named properties only and
  does not recurse; that legacy mode is not modelled.) \<open>makeImmutable_loop\<close> is the
  loop over \<^verbatim>\<open>Object.keys(object)\<close>: it walks the properties of the object, passes
  over those that are not enumerable, and returns the properties as the loop leaves
  them. The recursive call mutates the value in place, so the property shows the
  result. On \<^verbatim>\<open>null\<close> and \<^verbatim>\<open>undefined\<close> \<^verbatim>\<open>Object.keys\<close> throws; on a string
  with a character \<^verbatim>\<open>Object.defineProperty\<close> throws.
\<close>

fun makeImmutable :: "jsval \<Rightarrow> error + jsval"
  and makeImmutable_loop :: "props \<Rightarrow> error + props" where
  "makeImmutable (Obj k ps) =
     (case makeImmutable_loop ps of Inl e \<Rightarrow> Inl e | Inr ps' \<Rightarrow> Inr (Obj k ps'))"
| "makeImmutable Undefined = Inl TypeError"
| "makeImmutable Null = Inl TypeError"
| "makeImmutable (Str s) = (if s = [] then Inr (Str s) else Inl TypeError)"
| "makeImmutable v = Inr v"
| "makeImmutable_loop [] = Inr []"
| "makeImmutable_loop ((propertyName, a, v) # rest) =
     (if \<not> enumerable a \<or> is_raw v then
        (case makeImmutable_loop rest of
           Inl e \<Rightarrow> Inl e
         | Inr rest' \<Rightarrow> Inr ((propertyName, a, v) # rest'))
      else if rejects a v (immutable_desc v) then Inl TypeError
      else
        (case (if isObject v then makeImmutable v else Inr v) of
           Inl e \<Rightarrow> Inl e
         | Inr v' \<Rightarrow>
             (case makeImmutable_loop rest of
                Inl e \<Rightarrow> Inl e
              | Inr rest' \<Rightarrow>
                  Inr ((propertyName, fst (redefine a v (immutable_desc v)), v') # rest'))))"

section \<open>cloneDeep\<close>

text \<open>\<^verbatim>\<open>util.getRegExpFlags\<close>: the flags g, i, m of the expression, in this order.\<close>

definition getRegExpFlags :: "string \<Rightarrow> string" where
  "getRegExpFlags flags =
     (if CHR ''g'' \<in> set flags then ''g'' else [])
     @ (if CHR ''i'' \<in> set flags then ''i'' else [])
     @ (if CHR ''m'' \<in> set flags then ''m'' else [])"

text \<open>
  The empty child that \<open>_clone\<close> creates for a parent: an array, a regular expression
  with the parent's source, flags and \<^verbatim>\<open>lastIndex\<close>, a date with the parent's time, or
  an object with the parent's prototype.
\<close>

fun child_kind :: "kind \<Rightarrow> kind" where
  "child_kind (RegExp source flags lastIndex) = RegExp source (getRegExpFlags flags) lastIndex"
| "child_kind k = k"

text \<open>\<^verbatim>\<open>depth === 0\<close>.\<close>

fun is0 :: "depth \<Rightarrow> bool" where
  "is0 (DNum n) = (n = 0)"
| "is0 d = False"

text \<open>
  The inner function \<open>_clone\<close> of \<open>cloneDeep\<close>. In a tree no parent is met twice, so
  the lookup in \<open>allParents\<close> finds nothing. Every \<^verbatim>\<open>child[i] = ...\<close> creates a
  property of the fresh child.
\<close>

fun clone :: "jsval \<Rightarrow> depth \<Rightarrow> jsval" where
  "clone parent depth =
     (if parent = Null then Null
      else if is0 depth then parent
      else if \<not> typeof_object parent then parent
      else (case parent of
              Obj k ps \<Rightarrow>
                Obj (child_kind k)
                  (map (\<lambda>(i, a, v). (i, plain_attrs, clone v (dec depth)))
                     (filter (\<lambda>(i, a, v). enumerable a) ps))
            | _ \<Rightarrow> parent))"

declare clone.simps [simp del]

text \<open>
  \<^verbatim>\<open>util.cloneDeep(parent, depth)\<close>, called without \<open>circular\<close> and \<open>prototype\<close> as
  everywhere in the file.
\<close>

definition cloneDeep :: "jsval \<Rightarrow> depth \<Rightarrow> jsval" where
  "cloneDeep parent depth = clone parent (if depth = DUndefined then DNum 20 else depth)"

section \<open>extendDeep\<close>

text \<open>
  What \<^verbatim>\<open>for (var prop in mergeFrom)\<close> runs over: the properties of an object (the loops
  pass over those that are not enumerable), the characters of a string, nothing for any
  other value.
\<close>

fun for_in :: "jsval \<Rightarrow> props" where
  "for_in (Obj k ps) = ps"
| "for_in (Str s) =
     map (\<lambda>(i, c). (show_nat i, Attrs False True False, Str [c])) (zip [0..<length s] s)"
| "for_in v = []"

text \<open>\<^verbatim>\<open>mergeInto.hasOwnProperty(prop)\<close> on an object.\<close>

definition hasOwnProperty :: "kind \<Rightarrow> props \<Rightarrow> string \<Rightarrow> bool" where
  "hasOwnProperty k ps prop = (map_of ps prop \<noteq> None \<or> (k = Array \<and> prop = ''length''))"

text \<open>\<^verbatim>\<open>v._original\<close> and \<^verbatim>\<open>v._original = x\<close> on a deferred value.\<close>

fun get_original :: "jsval \<Rightarrow> jsval" where
  "get_original (Obj k ps) = lookup k ps ''_original''"
| "get_original v = Undefined"

fun set_original :: "jsval \<Rightarrow> jsval \<Rightarrow> jsval" where
  "set_original (Obj k ps) x = Obj k (assign ps ''_original'' x)"
| "set_original v x = v"

text \<open>
  \<open>extendDeep\<close> on a destination that is not an object. Reading a property of
  \<^verbatim>\<open>null\<close> or \<^verbatim>\<open>undefined\<close> throws; on another primitive every assignment is
  ignored, and \<^verbatim>\<open>Object.defineProperty\<close>, reached for a source property that holds a
  primitive, throws.
\<close>

fun extendDeep_primitive :: "jsval \<Rightarrow> props \<Rightarrow> error + jsval" where
  "extendDeep_primitive mergeInto [] = Inr mergeInto"
| "extendDeep_primitive mergeInto ((prop, a, v) # rest) =
     (if \<not> enumerable a then extendDeep_primitive mergeInto rest
      else if \<not> not_nullish mergeInto then Inl TypeError
      else if truthy v \<and> typeof_object v then extendDeep_primitive mergeInto rest
      else Inl TypeError)"

text \<open>
  \<open>extendDeep_depth mergeInto vargs depth\<close> is the function from its recursion guard
  on, with the depth already taken off the argument list. \<open>extendDeep_vargs\<close> is
  \<^verbatim>\<open>vargs.forEach\<close>; \<open>extendDeep_props k ps from depth\<close> is the loop over the remaining
  properties \<open>from\<close> of one source, where \<open>k\<close> and \<open>ps\<close> are the destination as the
  loop has it. The source value \<open>v\<close> of a property is read once; the assignment to
  its \<^verbatim>\<open>_original\<close> changes what the later reads of \<^verbatim>\<open>mergeFrom[prop]\<close> see. The
  recursive call \<^verbatim>\<open>util.extendDeep(mergeInto[prop], mergeFrom[prop], depth - 1)\<close> passes
  a number last, so it enters \<open>extendDeep_depth\<close> with the one source and that depth;
  it mutates \<^verbatim>\<open>mergeInto[prop]\<close> in place. A property that \<^verbatim>\<open>for ... in\<close> yields is an
  own property here, so its descriptor exists and the last branch of the source
  (assignment of an inherited value) is never taken.

  \<^verbatim>\<open>mergeInto[prop]\<close> is read for the tests \<^verbatim>\<open>instanceof DeferredConfig\<close> and
  \<^verbatim>\<open>util.isObject\<close> (and for \<^verbatim>\<open>_original\<close>, under \<^verbatim>\<open>hasOwnProperty\<close>). Under
  a key that \<open>mergeInto\<close> does not own the code reads what a plain object or an
  array inherits, which is a method and fails both tests as \<^verbatim>\<open>undefined\<close> does; so
  \<open>lookup\<close> stands for the read. The one inherited property that is not a method is
  the accessor \<^verbatim>\<open>__proto__\<close>: under that key the code would merge into the prototype
  or replace it, and the trees that are \<open>structural\<close> have no such key.

  On an array the key \<^verbatim>\<open>length\<close> is the built-in property. For a source property of
  that name \<^verbatim>\<open>Object.defineProperty\<close> (the source holds a primitive; the descriptor
  is enumerable) throws a TypeError or a RangeError, and the assignment (the source
  holds an object) converts the object to a number and throws a RangeError or resizes
  the array. The model stops there with \<open>ArrayLength\<close>.
\<close>

function (sequential) extendDeep_depth :: "jsval \<Rightarrow> jsval list \<Rightarrow> int \<Rightarrow> error + jsval"
  and extendDeep_vargs :: "jsval \<Rightarrow> jsval list \<Rightarrow> int \<Rightarrow> error + jsval"
  and extendDeep_props :: "kind \<Rightarrow> props \<Rightarrow> props \<Rightarrow> int \<Rightarrow> error + props" where
  "extendDeep_depth mergeInto vargs depth =
     (if depth < 0 then Inr mergeInto else extendDeep_vargs mergeInto vargs depth)"
| "extendDeep_vargs mergeInto [] depth = Inr mergeInto"
| "extendDeep_vargs (Obj k ps) (mergeFrom # rest) depth =
     (case extendDeep_props k ps (for_in mergeFrom) depth of
        Inl e \<Rightarrow> Inl e
      | Inr ps' \<Rightarrow> extendDeep_vargs (Obj k ps') rest depth)"
| "extendDeep_vargs mergeInto (mergeFrom # rest) depth =
     (case extendDeep_primitive mergeInto (for_in mergeFrom) of
        Inl e \<Rightarrow> Inl e
      | Inr m \<Rightarrow> extendDeep_vargs m rest depth)"
| "extendDeep_props k ps [] depth = Inr ps"
| "extendDeep_props k ps ((prop, a, v0) # rest) depth =
     (if \<not> enumerable a then extendDeep_props k ps rest depth
      else if k = Array \<and> prop = ''length'' then Inl ArrayLength
      else
        let fromIsDeferredFunc = is_deferred v0;
            isDeferredFunc = is_deferred (lookup k ps prop);
            v = (if fromIsDeferredFunc \<and> hasOwnProperty k ps prop
                 then set_original v0
                        (if isDeferredFunc then get_original (lookup k ps prop)
                         else lookup k ps prop)
                 else v0);
            ps1 = (if is_date v then assign ps prop v else ps)
        in
          if is_regexp v then extendDeep_props k (assign ps1 prop v) rest depth
          else if isObject (lookup k ps1 prop) \<and> isObject v \<and> \<not> isDeferredFunc then
            (case extendDeep_depth (lookup k ps1 prop) [v] (depth - 1) of
               Inl e \<Rightarrow> Inl e
             | Inr child \<Rightarrow> extendDeep_props k (replace_value ps1 prop child) rest depth)
          else if truthy v \<and> typeof_object v then
            extendDeep_props k (assign ps1 prop (cloneDeep v (DNum (depth - 1)))) rest depth
          else
            (case defineProperty ps1 prop (descriptor a v) of
               Inl e \<Rightarrow> Inl e
             | Inr ps2 \<Rightarrow> extendDeep_props k ps2 rest depth))"
  by pat_completeness auto

termination
  by (relation "measures
        [\<lambda>x. case x of
               Inl (m, vs, d) \<Rightarrow> nat (d + 1)
             | Inr (Inl (m, vs, d)) \<Rightarrow> nat (d + 1)
             | Inr (Inr (k, ps, fr, d)) \<Rightarrow> nat (d + 1),
         \<lambda>x. case x of
               Inl (m, vs, d) \<Rightarrow> (if d < 0 then 0 else 3)
             | Inr (Inl (m, vs, d)) \<Rightarrow> 2
             | Inr (Inr (k, ps, fr, d)) \<Rightarrow> 1,
         \<lambda>x. case x of
               Inl (m, vs, d) \<Rightarrow> 0
             | Inr (Inl (m, vs, d)) \<Rightarrow> length vs
             | Inr (Inr (k, ps, fr, d)) \<Rightarrow> length fr]")
    auto

text \<open>
  \<^verbatim>\<open>util.extendDeep(mergeInto, ...)\<close> with the arguments that follow \<open>mergeInto\<close>: the
  last one is taken off as the depth; when it is not a number it is put back and the
  depth is the default. Without further arguments \<^verbatim>\<open>vargs.pop()\<close> gives
  \<^verbatim>\<open>undefined\<close>, which is put back as the only source.
\<close>

definition extendDeep :: "jsval \<Rightarrow> jsval list \<Rightarrow> error + jsval" where
  "extendDeep mergeInto args =
     (case rev args of
        Num depth # vargs \<Rightarrow> extendDeep_depth mergeInto (rev vargs) depth
      | [] \<Rightarrow> extendDeep_depth mergeInto [Undefined] DEFAULT_CLONE_DEPTH
      | _ \<Rightarrow> extendDeep_depth mergeInto args DEFAULT_CLONE_DEPTH)"

text \<open>
  The body of the loop of \<open>extendDeep\<close> for one enumerable property \<open>pr\<close> of a
  source, as a function of the destination: \<open>extendDeep_props\<close> applies it to each
  property in turn (lemma \<open>extendDeep_props_Cons\<close>).
\<close>

definition merge_prop :: "kind \<Rightarrow> props \<Rightarrow> string \<Rightarrow> attrs \<Rightarrow> jsval \<Rightarrow> int \<Rightarrow> error + props" where
  "merge_prop k ps pr a v0 depth =
     (if k = Array \<and> pr = ''length'' then Inl ArrayLength
      else
      let v = (if is_deferred v0 \<and> hasOwnProperty k ps pr
               then set_original v0
                      (if is_deferred (lookup k ps pr) then get_original (lookup k ps pr)
                       else lookup k ps pr)
               else v0);
          ps1 = (if is_date v then assign ps pr v else ps)
      in
        if is_regexp v then Inr (assign ps1 pr v)
        else if isObject (lookup k ps1 pr) \<and> isObject v \<and> \<not> is_deferred (lookup k ps pr) then
          (case extendDeep_depth (lookup k ps1 pr) [v] (depth - 1) of
             Inl e \<Rightarrow> Inl e
           | Inr child \<Rightarrow> Inr (replace_value ps1 pr child))
        else if truthy v \<and> typeof_object v then
          Inr (assign ps1 pr (cloneDeep v (DNum (depth - 1))))
        else defineProperty ps1 pr (descriptor a v))"

section \<open>diffDeep\<close>

text \<open>
  \<^verbatim>\<open>util.diffDeep(object1, object2, depth)\<close>. \<open>diffDeep_loop\<close> is the loop over the
  remaining properties of \<open>object2\<close>; it returns the properties that the loop adds to
  the fresh object \<open>diff\<close>, in the order in which it adds them. The calls of
  \<open>equalsDeep\<close> pass no depth. The parameter \<open>inherited\<close> is the set of the
  names of the inherited properties, for the reads \<^verbatim>\<open>object1[parm]\<close> (\<open>get_prop\<close>).
\<close>

text \<open>
  The loop over the characters of a string \<open>object2\<close>: a character is neither an
  object nor an array, so only the last comparison of the loop applies.
\<close>

fun diffDeep_chars :: "string set \<Rightarrow> jsval \<Rightarrow> props \<Rightarrow> error + props" where
  "diffDeep_chars inherited object1 [] = Inr []"
| "diffDeep_chars inherited object1 ((parm, a, value2) # rest) =
     (case get_prop inherited object1 parm of
        Inl e \<Rightarrow> Inl e
      | Inr value1 \<Rightarrow>
          (case diffDeep_chars inherited object1 rest of
             Inl e \<Rightarrow> Inl e
           | Inr diff \<Rightarrow>
               Inr ((if \<not> strict_eq value1 value2 then [(parm, plain_attrs, value2)] else [])
                    @ diff)))"

fun diffDeep :: "string set \<Rightarrow> jsval \<Rightarrow> jsval \<Rightarrow> depth \<Rightarrow> error + jsval"
  and diffDeep_loop :: "string set \<Rightarrow> jsval \<Rightarrow> props \<Rightarrow> depth \<Rightarrow> error + props" where
  "diffDeep inherited object1 object2 depth0 =
     (let depth = (if depth0 = DNull then DNum DEFAULT_CLONE_DEPTH else depth0) in
      if lt0 depth then Inr (Obj Plain [])
      else (case object2 of
              Obj k2 ps2 \<Rightarrow>
                (case diffDeep_loop inherited object1 ps2 depth of
                   Inl e \<Rightarrow> Inl e
                 | Inr diff \<Rightarrow> Inr (Obj Plain diff))
            | _ \<Rightarrow>
                (case diffDeep_chars inherited object1 (for_in object2) of
                   Inl e \<Rightarrow> Inl e
                 | Inr diff \<Rightarrow> Inr (Obj Plain diff))))"
| "diffDeep_loop inherited object1 [] depth = Inr []"
| "diffDeep_loop inherited object1 ((parm, a, value2) # rest) depth =
     (if \<not> enumerable a then diffDeep_loop inherited object1 rest depth
      else case get_prop inherited object1 parm of
        Inl e \<Rightarrow> Inl e
      | Inr value1 \<Rightarrow>
          (case
             (if truthy value1 \<and> truthy value2 \<and> isObject value2 then
                (if \<not> truthy (equalsDeep value1 value2 DUndefined) then
                   (case diffDeep inherited value1 value2 (dec depth) of
                      Inl e \<Rightarrow> Inl e
                    | Inr d \<Rightarrow> Inr [(parm, plain_attrs, d)])
                 else Inr [])
              else if isArray value1 \<and> isArray value2 then
                (if \<not> truthy (equalsDeep value1 value2 DUndefined) then
                   Inr [(parm, plain_attrs, value2)]
                 else Inr [])
              else if \<not> strict_eq value1 value2 then Inr [(parm, plain_attrs, value2)]
              else Inr [])
           of
             Inl e \<Rightarrow> Inl e
           | Inr added \<Rightarrow>
               (case diffDeep_loop inherited object1 rest depth of
                  Inl e \<Rightarrow> Inl e
                | Inr diff \<Rightarrow> Inr (added @ diff))))"

section \<open>resolveDeferredConfigs\<close>

text \<open>
  Modelled from the spec: the classes \<^verbatim>\<open>DeferredConfig\<close> (\<^verbatim>\<open>../defer\<close>) and
  \<^verbatim>\<open>RawConfig\<close> (\<^verbatim>\<open>../raw\<close>) are not part of this file. A deferred value is "a
  capability-object wrapping a resolver function plus an original payload": an object
  of kind \<open>Deferred r\<close>, where \<open>r\<close> names its resolver in a table of resolver functions,
  with the payload in its property \<^verbatim>\<open>_original\<close>, as this file reads and writes it. A
  resolver is a function of the root and the payload; it has no effect on the tree.
\<close>

type_synonym resolvers = "nat \<Rightarrow> jsval \<Rightarrow> jsval \<Rightarrow> jsval"

fun resolve :: "resolvers \<Rightarrow> jsval \<Rightarrow> jsval \<Rightarrow> jsval \<Rightarrow> jsval" where
  "resolve rs (Obj (Deferred r) ps) root original = rs r root original"
| "resolve rs v root original = Undefined"

text \<open>
  \<^verbatim>\<open>v.constructor == Object\<close> and \<^verbatim>\<open>v.constructor == Array\<close>: what the prototype of
  a plain object or of an array gives, unless the object has a property of that name.
\<close>

fun constructor_is_Object :: "jsval \<Rightarrow> bool" where
  "constructor_is_Object (Obj Plain ps) = (map_of ps ''constructor'' = None)"
| "constructor_is_Object v = False"

fun constructor_is_Array :: "jsval \<Rightarrow> bool" where
  "constructor_is_Array (Obj Array ps) = (map_of ps ''constructor'' = None)"
| "constructor_is_Array v = False"

text \<open>
  The first loop of \<open>_iterate\<close>: the own enumerable properties that are neither
  \<^verbatim>\<open>null\<close> nor \<^verbatim>\<open>undefined\<close>.
\<close>

definition propsToSort :: "props \<Rightarrow> string list" where
  "propsToSort ps = map fst (filter (\<lambda>(property, a, v). enumerable a \<and> not_nullish v) ps)"

text \<open>
  The assignment \<^verbatim>\<open>prop[property] = ...\<close> inside the tree: \<open>set_at root path x\<close>
  follows the path of keys from the root to the object \<open>prop\<close> and assigns to its
  last key.
\<close>

fun set_at :: "jsval \<Rightarrow> string list \<Rightarrow> jsval \<Rightarrow> jsval" where
  "set_at (Obj k ps) [property] x = Obj k (assign ps property x)"
| "set_at (Obj k ps) (p # q # path) x =
     Obj k (map (\<lambda>(p', a, v). if p' = p then (p', a, set_at v (q # path) x) else (p', a, v)) ps)"
| "set_at v path x = v"

lemma size_lookup: "size (lookup k ps p) < size (Obj k ps)"
proof (induction ps)
  case Nil
  then show ?case by (simp add: lookup_def array_length_def)
next
  case (Cons e ps)
  obtain p' a v where e: "e = (p', a, v)" by (cases e)
  from Cons show ?case
    by (auto simp: lookup_def e split: option.splits if_splits)
qed

lemma size_lookup_le:
  "size (lookup k ps p) \<le> size_list (size_prod (\<lambda>x. 0) (size_prod (\<lambda>x. 0) size)) ps"
  using size_lookup [of k ps p] by simp

lemma size_lookup_Obj:
  "Obj k' ps' = lookup k ps p \<Longrightarrow>
   Suc (size_list (size_prod (\<lambda>x. 0) (size_prod (\<lambda>x. 0) size)) ps')
   \<le> size_list (size_prod (\<lambda>x. 0) (size_prod (\<lambda>x. 0) size)) ps"
proof -
  assume eq: "Obj k' ps' = lookup k ps p"
  have "size (Obj k' ps') < size (Obj k ps)"
    unfolding eq by (rule size_lookup)
  then show ?thesis by simp
qed

text \<open>
  The inner function \<open>_iterate\<close> of \<open>resolveDeferredConfigs\<close>. \<open>iterate rs root path
  prop\<close> visits the value \<open>prop\<close>, which stands at \<open>path\<close> in the configuration;
  it returns the configuration as the visit leaves it. \<open>iterate_sorted\<close> is the
  \<^verbatim>\<open>forEach\<close> over the sorted property names, \<open>iterate_elements\<close> the loop over the
  indices of an array. A resolver is called with the configuration as it is at that
  moment. The loops read the properties of \<open>prop\<close> as they were when the visit began:
  an assignment replaces a value that the loops have passed.
\<close>

function (sequential) iterate :: "resolvers \<Rightarrow> jsval \<Rightarrow> string list \<Rightarrow> jsval \<Rightarrow> jsval"
  and iterate_sorted ::
    "resolvers \<Rightarrow> jsval \<Rightarrow> string list \<Rightarrow> kind \<Rightarrow> props \<Rightarrow> string list \<Rightarrow> jsval"
  and iterate_elements :: "resolvers \<Rightarrow> jsval \<Rightarrow> string list \<Rightarrow> props \<Rightarrow> nat \<Rightarrow> jsval" where
  "iterate rs root path (Obj k ps) = iterate_sorted rs root path k ps (sort (propsToSort ps))"
| "iterate rs root path v = root"
| "iterate_sorted rs root path k ps [] = root"
| "iterate_sorted rs root path k ps (property # rest) =
     (let v = lookup k ps property;
          root' =
            (if constructor_is_Object v then iterate rs root (path @ [property]) v
             else if constructor_is_Array v then
               (case v of
                  Obj ka elems \<Rightarrow> iterate_elements rs root (path @ [property]) elems 0
                | _ \<Rightarrow> root)
             else if is_deferred v then
               set_at root (path @ [property]) (resolve rs v root (get_original v))
             else root)
      in iterate_sorted rs root' path k ps rest)"
| "iterate_elements rs root path elems i =
     (if i < array_length elems then
        iterate_elements rs
          (iterate rs root (path @ [show_nat i]) (lookup Array elems (show_nat i)))
          path elems (Suc i)
      else root)"
  by pat_completeness auto

termination
  by (relation "measures
        [\<lambda>x. case x of
               Inl (rs, root, path, v) \<Rightarrow> size v
             | Inr (Inl (rs, root, path, k, ps, ks)) \<Rightarrow> size (Obj k ps)
             | Inr (Inr (rs, root, path, elems, i)) \<Rightarrow> size (Obj Array elems),
         \<lambda>x. case x of
               Inl (rs, root, path, v) \<Rightarrow> 1
             | Inr (Inl (rs, root, path, k, ps, ks)) \<Rightarrow> 0
             | Inr (Inr (rs, root, path, elems, i)) \<Rightarrow> 0,
         \<lambda>x. case x of
               Inl (rs, root, path, v) \<Rightarrow> 0
             | Inr (Inl (rs, root, path, k, ps, ks)) \<Rightarrow> length ks
             | Inr (Inr (rs, root, path, elems, i)) \<Rightarrow> array_length elems - i]")
    (auto simp: less_Suc_eq_le size_lookup_le dest: size_lookup_Obj)

text \<open>
  \<^verbatim>\<open>util.resolveDeferredConfigs(config)\<close>: the configuration as the function leaves
  it.
\<close>

definition resolveDeferredConfigs :: "resolvers \<Rightarrow> jsval \<Rightarrow> jsval" where
  "resolveDeferredConfigs rs config = iterate rs config [] config"

section \<open>getImpl, get, has\<close>

text \<open>
  A \<^verbatim>\<open>property\<close> argument of \<open>get\<close> and \<open>has\<close>: \<^verbatim>\<open>null\<close>, \<^verbatim>\<open>undefined\<close>, a
  string, an array of strings (the documented types), a number or a boolean.
\<close>

datatype property =
    PropNull
  | PropUndefined
  | PropString string
  | PropArray "string list"
  | PropNumber int
  | PropBoolean bool

text \<open>\<^verbatim>\<open>property.split('.')\<close>.\<close>

fun split_dot :: "string \<Rightarrow> string list" where
  "split_dot [] = [[]]"
| "split_dot (c # cs) =
     (if c = CHR ''.'' then [] # split_dot cs
      else (case split_dot cs of w # ws \<Rightarrow> (c # w) # ws | [] \<Rightarrow> [[c]]))"

text \<open>
  \<open>getImpl\<close> reads \<^verbatim>\<open>object[name]\<close> under the names of the caller's path, so it
  also finds what the object inherits. What a read can yield is a value of the tree, a
  method (\<^verbatim>\<open>typeof\<close> gives \<^verbatim>\<open>'function'\<close>), or a built-in object such as
  \<^verbatim>\<open>Object.prototype\<close>, given by the members that can be read from it.
\<close>

datatype member =
    Value jsval
  | Method string
  | Builtin "(string \<times> member) list"

text \<open>
  The inherited properties are a parameter: for each kind of object, what an object of
  the kind yields under a name that is not one of its own properties (\<open>None\<close>:
  nothing, the read gives \<^verbatim>\<open>undefined\<close>). This is the prototype chain of the kind;
  for the objects of a loaded configuration it is also the methods of
  \<^verbatim>\<open>Config.prototype\<close>, which the configuration object inherits and which
  \<^verbatim>\<open>attachProtoDeep\<close> hides on every nested object.
\<close>

type_synonym prototypes = "kind \<Rightarrow> string \<Rightarrow> member option"

text \<open>
  \<^verbatim>\<open>object[name]\<close>: the own property (\<open>own_property\<close>), or else the inherited one. On \<^verbatim>\<open>null\<close> and
  \<^verbatim>\<open>undefined\<close> the read throws a TypeError. \<open>getImpl\<close> is called on objects; what
  a primitive or a method would yield beyond its own properties is left out.
\<close>

fun get_member :: "prototypes \<Rightarrow> member \<Rightarrow> string \<Rightarrow> error + member" where
  "get_member inh (Value v) name =
     (if \<not> not_nullish v then Inl TypeError
      else case own_property v name of
             Some x \<Rightarrow> Inr (Value x)
           | None \<Rightarrow>
               (case v of
                  Obj knd ps \<Rightarrow>
                    (case inh knd name of Some m \<Rightarrow> Inr m | None \<Rightarrow> Inr (Value Undefined))
                | _ \<Rightarrow> Inr (Value Undefined)))"
| "get_member inh (Builtin ms) name =
     (case map_of ms name of Some m \<Rightarrow> Inr m | None \<Rightarrow> Inr (Value Undefined))"
| "get_member inh (Method f) name = Inr (Value Undefined)"

text \<open>\<^verbatim>\<open>value === null || typeof value !== 'object'\<close> is false: the value is an object.\<close>

fun is_object :: "member \<Rightarrow> bool" where
  "is_object (Value v) = (v \<noteq> Null \<and> typeof_object v)"
| "is_object (Builtin ms) = True"
| "is_object (Method f) = False"

text \<open>
  \<open>getImpl\<close> on the array \<open>elems\<close>, which is how the function calls itself. With no
  element the name is \<^verbatim>\<open>undefined\<close>, which as a key reads \<^verbatim>\<open>"undefined"\<close>.
\<close>

fun getImpl_elems :: "prototypes \<Rightarrow> member \<Rightarrow> string list \<Rightarrow> error + member" where
  "getImpl_elems inh object [] = get_member inh object ''undefined''"
| "getImpl_elems inh object [name] = get_member inh object name"
| "getImpl_elems inh object (name # next # elems) =
     (case get_member inh object name of
        Inl e \<Rightarrow> Inl e
      | Inr v \<Rightarrow>
          if \<not> is_object v then Inr (Value Undefined)
          else getImpl_elems inh v (next # elems))"

text \<open>
  \<open>getImpl(object, property)\<close>: a number or a boolean is not an array and has no
  \<^verbatim>\<open>split\<close>, so the call throws a TypeError, as does \<^verbatim>\<open>null.split\<close>.
\<close>

fun getImpl :: "prototypes \<Rightarrow> jsval \<Rightarrow> property \<Rightarrow> error + member" where
  "getImpl inh object (PropArray elems) = getImpl_elems inh (Value object) elems"
| "getImpl inh object (PropString s) = getImpl_elems inh (Value object) (split_dot s)"
| "getImpl inh object property = Inl TypeError"

text \<open>\<^verbatim>\<open>Config.prototype.has\<close>, called on the object \<open>t\<close>.\<close>

definition has :: "prototypes \<Rightarrow> jsval \<Rightarrow> property \<Rightarrow> error + bool" where
  "has inh t property =
     (if property = PropNull \<or> property = PropUndefined then Inr False
      else (case getImpl inh t property of
              Inl e \<Rightarrow> Inl e
            | Inr v \<Rightarrow> Inr (v \<noteq> Value Undefined)))"

text \<open>
  The module state that \<open>get\<close> reads and writes: the configuration object and the
  flag \<open>checkMutability\<close>.
\<close>

record config_state =
  config :: jsval
  checkMutability :: bool



text \<open>
  The prototype of the objects that an object literal or \<^verbatim>\<open>JSON.parse\<close> creates:
  the methods of \<^verbatim>\<open>Object.prototype\<close> (ECMAScript 5.1, 15.2.4) and its accessor
  \<^verbatim>\<open>__proto__\<close>, which yields the prototype itself, whose own prototype is \<^verbatim>\<open>null\<close>.
  In \<open>Object_prototype_chain\<close> the objects of every other kind inherit the same
  methods, at the end of their chains; what the nearer prototypes add is left out.
\<close>

definition Object_prototype_methods :: "(string \<times> member) list" where
  "Object_prototype_methods =
     map (\<lambda>n. (n, Method n))
       [''constructor'', ''toString'', ''toLocaleString'', ''valueOf'', ''hasOwnProperty'',
        ''isPrototypeOf'', ''propertyIsEnumerable'']"

definition Object_prototype :: member where
  "Object_prototype = Builtin ((''__proto__'', Value Null) # Object_prototype_methods)"

definition Object_prototype_chain :: prototypes where
  "Object_prototype_chain knd name =
     (if knd = Plain \<and> name = ''__proto__'' then Some Object_prototype
      else map_of Object_prototype_methods name)"

section \<open>Notions used in the statements\<close>

text \<open>The arguments that the doc comments of \<open>get\<close> and \<open>has\<close> allow, with \<^verbatim>\<open>null\<close> and \<^verbatim>\<open>undefined\<close>.\<close>

fun documented :: "property \<Rightarrow> bool" where
  "documented (PropNumber n) = False"
| "documented (PropBoolean b) = False"
| "documented p = True"


text \<open>
  An object is frozen when each of its enumerable properties either holds a
  \<^verbatim>\<open>RawConfig\<close> or is neither writable nor configurable and, when its value is an
  object in the sense of \<open>isObject\<close>, holds a frozen object.
\<close>

fun frozen :: "jsval \<Rightarrow> bool" and frozen_props :: "props \<Rightarrow> bool" where
  "frozen (Obj k ps) = frozen_props ps"
| "frozen v = True"
| "frozen_props [] = True"
| "frozen_props ((n, a, v) # ps) =
     ((\<not> enumerable a \<or> is_raw v
       \<or> (\<not> writable a \<and> \<not> configurable a \<and> (isObject v \<longrightarrow> frozen v)))
      \<and> frozen_props ps)"

text \<open>
  No property anywhere in the value is frozen: each one is writable and configurable.
\<close>

fun unfrozen :: "jsval \<Rightarrow> bool" and unfrozen_props :: "props \<Rightarrow> bool" where
  "unfrozen (Obj k ps) = unfrozen_props ps"
| "unfrozen v = True"
| "unfrozen_props [] = True"
| "unfrozen_props ((n, a, v) # ps) =
     (writable a \<and> configurable a \<and> unfrozen v \<and> unfrozen_props ps)"




text \<open>
  The object that \<open>makeImmutable\<close> is to return, in the words of the specification
  with \<^verbatim>\<open>RawConfig\<close> as the value that is skipped: every enumerable property that
  does not hold a \<^verbatim>\<open>RawConfig\<close> is neither writable nor configurable and, when its
  value is an object in the sense of \<open>isObject\<close>, holds that object treated in the
  same way; every other property is as it was, and so are the keys and their order.
\<close>

fun made_immutable :: "jsval \<Rightarrow> jsval" and made_immutable_props :: "props \<Rightarrow> props" where
  "made_immutable (Obj k ps) = Obj k (made_immutable_props ps)"
| "made_immutable v = v"
| "made_immutable_props [] = []"
| "made_immutable_props ((n, a, v) # ps) =
     (if enumerable a \<and> \<not> is_raw v
      then (n, Attrs False True False, if isObject v then made_immutable v else v)
      else (n, a, v))
     # made_immutable_props ps"

text \<open>
  \<^verbatim>\<open>!(v && typeof v === 'object')\<close>: the values that the last branches of
  \<open>extendDeep\<close> copy with \<^verbatim>\<open>Object.defineProperty\<close>.
\<close>

definition primitive :: "jsval \<Rightarrow> bool" where
  "primitive v = (\<not> (truthy v \<and> typeof_object v))"

text \<open>A property of a tree, with the path of keys that leads to it.\<close>

type_synonym entry = "string list \<times> attrs \<times> jsval"



text \<open>
  Every property of \<open>ls\<close> is accepted by the properties of \<open>S\<close> that stand at the
  same path: \<^verbatim>\<open>Object.defineProperty\<close> would not reject its descriptor for any of
  them.
\<close>

definition accepted :: "entry set \<Rightarrow> entry list \<Rightarrow> bool" where
  "accepted S ls =
     (\<forall>(p, a, v) \<in> set ls. \<forall>(q, b, w) \<in> S. q = p \<longrightarrow> \<not> rejects b w (descriptor a v))"






text \<open>
  What the loop of \<open>diffDeep\<close> adds to the difference for one property of \<open>object2\<close>
  that holds \<open>value2\<close>, where \<open>object1\<close> holds \<open>value1\<close> under the same key: nothing,
  or the property with its value.
\<close>

definition diff_entry :: "string set \<Rightarrow> jsval \<Rightarrow> jsval \<Rightarrow> (attrs \<times> jsval) option" where
  "diff_entry inherited value1 value2 =
     (if truthy value1 \<and> truthy value2 \<and> isObject value2 then
        (if \<not> truthy (equalsDeep value1 value2 DUndefined) then
           (case diffDeep inherited value1 value2 DNaN of
              Inl e \<Rightarrow> None
            | Inr d \<Rightarrow> Some (plain_attrs, d))
         else None)
      else if isArray value1 \<and> isArray value2 then
        (if \<not> truthy (equalsDeep value1 value2 DUndefined) then Some (plain_attrs, value2)
         else None)
      else if \<not> strict_eq value1 value2 then Some (plain_attrs, value2)
      else None)"

text \<open>
  \<^verbatim>\<open>v[k]\<close> on a value that is neither \<^verbatim>\<open>null\<close> nor \<^verbatim>\<open>undefined\<close>, under a
  name that is not inherited.
\<close>

definition value_at :: "jsval \<Rightarrow> string \<Rightarrow> jsval" where
  "value_at v k = (case own_property v k of None \<Rightarrow> Undefined | Some x \<Rightarrow> x)"

text \<open>
  The properties of the difference of a value \<open>b\<close> and an object with the properties
  \<open>qs\<close>: what \<open>diff_entry\<close> yields for each property, in order.
\<close>

definition diff_props :: "string set \<Rightarrow> jsval \<Rightarrow> props \<Rightarrow> props" where
  "diff_props inherited b qs =
     List.map_filter
       (\<lambda>(n, a, v2). map_option (\<lambda>(a', x). (n, a', x)) (diff_entry inherited (value_at b n) v2))
       qs"




section \<open>Properties of equalsDeep\<close>

lemma falsy_values: "\<not> truthy x \<longleftrightarrow> x \<in> {Undefined, Null, Bool False, Num 0, Str []}"
  by (cases x) auto

text \<open>
  Claim C9. \<open>equalsDeep\<close> is not reflexive on falsy values: for each of
  \<^verbatim>\<open>undefined\<close>, \<^verbatim>\<open>null\<close>, \<^verbatim>\<open>false\<close>, \<^verbatim>\<open>0\<close> and the empty string,
  \<^verbatim>\<open>equalsDeep(x, x)\<close> returns \<^verbatim>\<open>false\<close> although \<^verbatim>\<open>x === x\<close>, because the test for
  falsy arguments comes before the test for identity. This holds when the depth is omitted,
  \<^verbatim>\<open>null\<close> or a number that is not negative.
\<close>

theorem equalsDeep_falsy_not_reflexive:
  assumes "x \<in> {Undefined, Null, Bool False, Num 0, Str []}"
    and "d = DUndefined \<or> d = DNull \<or> (\<exists>n. d = DNum n \<and> 0 \<le> n)"
  shows "strict_eq x x \<and> equalsDeep x x d = Bool False"
  using assms by (auto simp: DEFAULT_CLONE_DEPTH_def)

theorem equalsDeep_falsy_not_reflexive_witness:
  "strict_eq (Num 0) (Num 0) \<and> equalsDeep (Num 0) (Num 0) DUndefined = Bool False"
  using equalsDeep_falsy_not_reflexive [of "Num 0" DUndefined] by simp

lemma equalsDeep_negative_depth: "n < 0 \<Longrightarrow> equalsDeep a b (DNum n) = Obj Plain []"
  by simp

text \<open>
  Claim C2. The claim is that \<open>equalsDeep\<close> returns \<^verbatim>\<open>false\<close> whenever the depth
  bound is exhausted. The guard of the function returns an empty object instead, which is
  truthy: called with a negative depth the function returns \<^verbatim>\<open>{}\<close>, and with depth 0
  the objects \<^verbatim>\<open>{a: {b: 1}}\<close> and \<^verbatim>\<open>{a: {b: 2}}\<close>, which differ below the bound, compare
  as equal.
\<close>

theorem equalsDeep_depth_exhausted_not_false:
  "equalsDeep (Num 1) (Num 2) (DNum (- 1)) = Obj Plain []
   \<and> equalsDeep (lit [(''a'', lit [(''b'', Num 1)])]) (lit [(''a'', lit [(''b'', Num 2)])]) (DNum 0)
     = Bool True"
  by (simp add: lit_def plain_attrs_def keys_def enum_props_def lookup_def)

section \<open>Properties of get and has\<close>

lemma is_object_Value: "is_object (Value v) \<Longrightarrow> \<exists>k ps. v = Obj k ps"
  by (cases v) auto

lemma get_member_total: "is_object object \<Longrightarrow> \<exists>v. get_member inh object name = Inr v"
proof (cases object)
  case (Value v)
  assume "is_object object"
  with Value obtain k ps where "v = Obj k ps" using is_object_Value by blast
  with Value show ?thesis by (auto split: option.splits)
next
  case (Builtin ms)
  then show ?thesis by (auto split: option.splits)
qed auto

lemma getImpl_elems_total:
  "is_object object \<Longrightarrow> \<exists>v. getImpl_elems inh object elems = Inr v"
proof (induction inh object elems rule: getImpl_elems.induct)
  case (1 inh object)
  then show ?case using get_member_total by simp
next
  case (2 inh object name)
  then show ?case using get_member_total by simp
next
  case (3 inh object name nxt elems)
  from get_member_total [OF "3.prems"] obtain v where v: "get_member inh object name = Inr v"
    by blast
  show ?case
  proof (cases "is_object v")
    case True
    with "3.IH" [OF v] show ?thesis using v by auto
  next
    case False
    then show ?thesis using v by auto
  qed
qed

text \<open>
  Claim C8, as amended. Called on an object with \<^verbatim>\<open>null\<close>, \<^verbatim>\<open>undefined\<close>, a string
  or an array of strings, \<open>has\<close> returns a boolean and does not throw, whatever the
  object inherits; for \<^verbatim>\<open>null\<close> and \<^verbatim>\<open>undefined\<close> it returns \<^verbatim>\<open>false\<close>.
\<close>

theorem has_never_throws_on_paths:
  assumes "documented property"
  shows "(\<exists>b. has inh (Obj k ps) property = Inr b)
         \<and> has inh t PropNull = Inr False \<and> has inh t PropUndefined = Inr False"
proof -
  have "\<exists>v. getImpl inh (Obj k ps) property = Inr v \<or> property = PropNull \<or> property = PropUndefined"
    using assms getImpl_elems_total [of "Value (Obj k ps)" inh]
    by (cases property) auto
  then show ?thesis
    by (auto simp: has_def)
qed

theorem has_never_throws_on_paths_witness:
  "documented (PropString ''db.port'')
   \<and> (\<exists>b. has Object_prototype_chain (lit [(''db'', lit [(''port'', Num 5432)])])
            (PropString ''db.port'') = Inr b)
   \<and> has Object_prototype_chain (lit []) PropNull = Inr False
   \<and> has Object_prototype_chain (lit []) PropUndefined = Inr False"
  using has_never_throws_on_paths [of "PropString ''db.port''" Object_prototype_chain Plain
      "[(''db'', plain_attrs, lit [(''port'', Num 5432)])]" "lit []"]
  by (simp add: lit_def)

text \<open>
  Claim C8 as stated fails: the claim is about every argument, and a number has no
  \<^verbatim>\<open>split\<close>, so \<^verbatim>\<open>has(5)\<close> throws a TypeError.
\<close>

theorem has_throws_on_number:
  "has Object_prototype_chain (lit [(''db'', lit [(''port'', Num 5432)])]) (PropNumber 5)
   = Inl TypeError"
  by (simp add: has_def)






section \<open>Properties of makeImmutable\<close>

lemma isArray_Obj [simp]: "isArray (Obj k ps) = (k = Array)"
  by (cases k) auto

lemma isObject_Obj [simp]: "isObject (Obj k ps) = (k \<noteq> Array)"
  by (simp add: isObject_def)

lemma isObject_cases: "isObject v \<Longrightarrow> \<exists>k ps. v = Obj k ps"
  by (cases v) (auto simp: isObject_def)

lemma not_rejects_immutable: "\<not> rejects a v (immutable_desc v)"
  by (simp add: rejects_def immutable_desc_def)

lemma redefine_immutable:
  "fst (redefine a v (immutable_desc v)) = Attrs False (enumerable a) False"
  by (simp add: redefine_def immutable_desc_def)

lemma makeImmutable_made_immutable:
  "\<forall>k ps. object = Obj k ps \<longrightarrow> makeImmutable object = Inr (made_immutable object)"
  "makeImmutable_loop props = Inr (made_immutable_props props)"
proof (induction object and props rule: makeImmutable_makeImmutable_loop.induct)
  case (1 k ps)
  then show ?case by simp
next
  case (7 propertyName a v rest)
  show ?case
  proof (cases "\<not> enumerable a \<or> is_raw v")
    case True
    with 7(1) show ?thesis by auto
  next
    case False
    note ne = False
    have nr: "\<not> rejects a v (immutable_desc v)" by (rule not_rejects_immutable)
    have v': "(if isObject v then makeImmutable v else Inr v)
        = Inr (if isObject v then made_immutable v else v)"
    proof (cases "isObject v")
      case True
      then obtain k ps where "v = Obj k ps" using isObject_cases by blast
      with 7(2) [OF ne nr True] True show ?thesis by simp
    next
      case False
      then show ?thesis by simp
    qed
    from 7(3) [OF ne nr v'] show ?thesis
      using ne nr v' by (simp add: redefine_immutable)
  qed
qed simp_all

lemma isObject_made_immutable: "isObject (made_immutable v) = isObject v"
  by (cases v) (simp_all add: isObject_def)

lemma frozen_made_immutable:
  "frozen (made_immutable object)" "frozen_props (made_immutable_props props)"
proof (induction object and props rule: made_immutable_made_immutable_props.induct)
  case (1 k ps)
  then show ?case by simp
next
  case (4 n a v ps)
  then show ?case by (simp add: isObject_made_immutable)
qed simp_all

text \<open>
  Claim C1, as amended. For every object, \<open>makeImmutable\<close> without a property list
  returns, with no exception, the object in which every own enumerable property is
  non-writable and non-configurable, recursively through the values that are objects (not
  arrays), except that a property whose value is a \<^verbatim>\<open>RawConfig\<close> is skipped and left
  as it is; the keys, their order and every other property are unchanged
  (\<open>made_immutable\<close>), and the result is \<open>frozen\<close>. A property that holds a
  \<^verbatim>\<open>DeferredConfig\<close> is not skipped: a deferred value is an object like any other
  here.
\<close>

theorem makeImmutable_freezes_all_but_raw:
  "makeImmutable (Obj k ps) = Inr (made_immutable (Obj k ps))
   \<and> frozen (made_immutable (Obj k ps))"
  using makeImmutable_made_immutable(1) [of "Obj k ps"] frozen_made_immutable(1) [of "Obj k ps"]
  by simp

theorem makeImmutable_freezes_all_but_raw_witness:
  "makeImmutable
     (Obj Plain [(''a'', plain_attrs, lit [(''x'', Num 1)]), (''l'', plain_attrs, arr [Num 2]),
                 (''r'', plain_attrs, Obj Raw [(''y'', plain_attrs, Num 3)]),
                 (''h'', Attrs True False True, Num 4)])
   = Inr (Obj Plain [(''a'', Attrs False True False, Obj Plain [(''x'', Attrs False True False, Num 1)]),
                     (''l'', Attrs False True False, arr [Num 2]),
                     (''r'', plain_attrs, Obj Raw [(''y'', plain_attrs, Num 3)]),
                     (''h'', Attrs True False True, Num 4)])
   \<and> frozen (Obj Plain [(''a'', Attrs False True False, Obj Plain [(''x'', Attrs False True False, Num 1)]),
                     (''l'', Attrs False True False, arr [Num 2]),
                     (''r'', plain_attrs, Obj Raw [(''y'', plain_attrs, Num 3)]),
                     (''h'', Attrs True False True, Num 4)])"
  using makeImmutable_freezes_all_but_raw
    [of Plain "[(''a'', plain_attrs, lit [(''x'', Num 1)]), (''l'', plain_attrs, arr [Num 2]),
                (''r'', plain_attrs, Obj Raw [(''y'', plain_attrs, Num 3)]),
                (''h'', Attrs True False True, Num 4)]"]
  by (simp add: lit_def arr_def plain_attrs_def isObject_def)

text \<open>
  Claim C1 as stated fails: the claim is that a property holding an unconsumed deferred
  value is skipped and left mutable. The guard of the loop tests for \<^verbatim>\<open>RawConfig\<close>,
  so the property \<^verbatim>\<open>a\<close> that holds a deferred value is made non-writable and
  non-configurable, and so is the \<^verbatim>\<open>_original\<close> of the deferred value.
\<close>

theorem makeImmutable_freezes_deferred:
  "makeImmutable (lit [(''a'', Obj (Deferred 0) [(''_original'', plain_attrs, Num 1)])])
   = Inr (Obj Plain [(''a'', Attrs False True False,
            Obj (Deferred 0) [(''_original'', Attrs False True False, Num 1)])])"
  by (simp add: lit_def plain_attrs_def rejects_def redefine_def immutable_desc_def isObject_def)

section \<open>Properties of extendDeep\<close>

lemma extendDeep_props_Cons:
  "extendDeep_props k ps ((pr, a, v0) # rest) depth =
     (if \<not> enumerable a then extendDeep_props k ps rest depth
      else case merge_prop k ps pr a v0 depth of
             Inl e \<Rightarrow> Inl e
           | Inr ps2 \<Rightarrow> extendDeep_props k ps2 rest depth)"
proof (cases "enumerable a")
  case False
  then show ?thesis by simp
next
  case True
  show ?thesis
  proof (cases "k = Array \<and> pr = ''length''")
    case g: True
    then show ?thesis using True by (simp add: merge_prop_def)
  next
    case g: False
    show ?thesis
      unfolding merge_prop_def
      by (simp only: extendDeep_props.simps Let_def True g not_True_eq_False if_False
          sum.case if_distrib [of "case_sum _ _"] sum.case_distrib [of "case_sum _ _"] cong: if_cong sum.case_cong)
  qed
qed

declare extendDeep_props.simps(2) [simp del]





lemma clone_primitive [simp]:
  "clone Undefined d = Undefined" "clone Null d = Null" "clone (Bool b) d = Bool b"
  "clone (Num n) d = Num n" "clone (Str s) d = Str s"
  by (simp_all add: clone.simps)

lemma primitive_Obj [simp]: "\<not> primitive (Obj k ps)"
  by (simp add: primitive_def)































lemma acceptedD:
  "accepted S ls \<Longrightarrow> (p, a, v) \<in> set ls \<Longrightarrow> (p, b, w) \<in> S \<Longrightarrow> \<not> rejects b w (descriptor a v)"
  by (fastforce simp: accepted_def)

lemma acceptedI:
  "(\<And>p a v b w. (p, a, v) \<in> set ls \<Longrightarrow> (p, b, w) \<in> S \<Longrightarrow> \<not> rejects b w (descriptor a v)) \<Longrightarrow>
   accepted S ls"
  by (auto simp: accepted_def)





lemma accepted_mono: "accepted S' ls \<Longrightarrow> S \<subseteq> S' \<Longrightarrow> accepted S ls"
  by (intro acceptedI) (blast dest: acceptedD)





lemma extendDeep_array_length:
  "extendDeep (arr [Num 1, Num 2]) [lit [(''length'', Num 1)]] = Inl ArrayLength"
  by (simp add: extendDeep_def DEFAULT_CLONE_DEPTH_def lit_def arr_def plain_attrs_def
      extendDeep_props_Cons merge_prop_def)

lemma unfrozen_props_append [simp]:
  "unfrozen_props (ps @ qs) = (unfrozen_props ps \<and> unfrozen_props qs)"
  by (induction ps) auto

lemma unfrozen_map_of:
  "unfrozen_props ps \<Longrightarrow> map_of ps p = Some (a, v) \<Longrightarrow> writable a \<and> configurable a \<and> unfrozen v"
  by (induction ps) (auto split: if_splits)

lemma unfrozen_lookup: "unfrozen_props ps \<Longrightarrow> unfrozen (lookup k ps p)"
  by (auto simp: lookup_def dest: unfrozen_map_of split: option.splits)





















lemma child_kind_Array [simp]: "(child_kind k = Array) = (k = Array)"
  by (cases k) auto












section \<open>Properties of diffDeep\<close>

















declare diffDeep.simps(1) [simp del]




lemma diff_props_Nil [simp]: "diff_props inh b [] = []"
  by (simp add: diff_props_def map_filter_simps)




















lemma lookup_cong: "map_of q n = map_of ps n \<Longrightarrow> n \<noteq> ''length'' \<or> k \<noteq> Array \<Longrightarrow>
   lookup k q n = lookup k ps n"
  by (auto simp: lookup_def)














section \<open>Properties of resolveDeferredConfigs\<close>

text \<open>
  Deferred values that stand as property values of nested nodes are resolved, in the
  sorted order of the keys (\<^verbatim>\<open>a\<close> before \<^verbatim>\<open>b\<close>, whatever the order of definition):
  each resolver is called with the configuration as it is at that moment and with the
  payload \<^verbatim>\<open>_original\<close> of its deferred value.
\<close>

lemma resolveDeferredConfigs_sorted_sweep:
  "resolveDeferredConfigs rs
     (lit [(''b'', lit [(''c'', Obj (Deferred 1) [(''_original'', plain_attrs, Num 7)])]),
           (''a'', Obj (Deferred 0) [])])
   = lit [(''b'', lit [(''c'',
            rs 1 (lit [(''b'', lit [(''c'', Obj (Deferred 1) [(''_original'', plain_attrs, Num 7)])]),
                       (''a'', rs 0 (lit [(''b'', lit [(''c'', Obj (Deferred 1) [(''_original'', plain_attrs, Num 7)])]),
                                         (''a'', Obj (Deferred 0) [])]) Undefined)])
                 (Num 7))]),
          (''a'', rs 0 (lit [(''b'', lit [(''c'', Obj (Deferred 1) [(''_original'', plain_attrs, Num 7)])]),
                            (''a'', Obj (Deferred 0) [])]) Undefined)]"
  by code_simp

text \<open>
  Claim C3. The claim is that after \<open>resolveDeferredConfigs\<close> no deferred value remains
  reachable, also inside sequences. A deferred value that is itself an element of an
  array is never replaced: for an array the function calls \<open>_iterate\<close> on each element,
  which visits the properties of the element and not the element. Whatever the
  resolvers, the configuration \<^verbatim>\<open>{a: [<deferred>]}\<close> is returned as it was.
\<close>

theorem resolveDeferredConfigs_skips_array_elements:
  "resolveDeferredConfigs rs (lit [(''a'', arr [Obj (Deferred 0) []])])
   = lit [(''a'', arr [Obj (Deferred 0) []])]"
  by (simp add: resolveDeferredConfigs_def lit_def arr_def propsToSort_def plain_attrs_def
      lookup_def array_length_def index_of_key_def parse_nat_def show_nat.simps digit_char_def)

end
